theory Spec2Isabelle
  imports
    Complex_Main
    "HOL-Library.Multiset"
    "HOL-Library.Sublist"
    "HOL-Library.Product_Lexorder"
begin

section \<open>Numbers\<close>

text \<open>
  The procurement core computes with Python floats. They are embedded as exact reals:
  every arithmetic operation is the mathematical one, and only the explicit calls of
  \<^verbatim>\<open>round(x, 2)\<close> and \<^verbatim>\<open>int(x)\<close> lose information. Python integers are \<open>int\<close>.
\<close>

text \<open>
  \<^verbatim>\<open>round(x, ndigits)\<close> of Python 3 rounds to the nearest multiple of \<open>10 ^ - ndigits\<close>
  and resolves a tie towards the even neighbour.
\<close>

definition round_half_even :: "real \<Rightarrow> int" where
  "round_half_even y =
     (let f = \<lfloor>y\<rfloor>; d = y - of_int f
      in if d < 1 / 2 then f else if 1 / 2 < d then f + 1
         else if even f then f else f + 1)"

definition py_round :: "real \<Rightarrow> nat \<Rightarrow> real" where
  "py_round x ndigits = of_int (round_half_even (x * 10 ^ ndigits)) / 10 ^ ndigits"

text \<open>\<^verbatim>\<open>int(x)\<close> truncates towards zero.\<close>

definition py_int :: "real \<Rightarrow> int" where
  "py_int x = (if 0 \<le> x then \<lfloor>x\<rfloor> else \<lceil>x\<rceil>)"


section \<open>Pricing and emissions (src/core/utils.py)\<close>

definition CO2_EMISSION_FACTOR :: real where
  "CO2_EMISSION_FACTOR = 6 / 100"

definition EARTH_RADIUS_KM :: real where
  "EARTH_RADIUS_KM = 6371"


definition calculate_co2_emissions :: "real \<Rightarrow> real \<Rightarrow> real" where
  "calculate_co2_emissions quantity_tons distance_km =
     py_round (quantity_tons * distance_km * CO2_EMISSION_FACTOR) 2"

section \<open>Errors\<close>

text \<open>
  The exceptions the core raises, as values. \<open>ValidationError\<close> is what a schema of
  src/domain/schemas.py raises on a field that breaks its constraint; it is a subclass of
  \<open>ValueError\<close>. \<open>HTTPException\<close> carries the status code and the detail.
\<close>

datatype error =
    ValueError string
  | FileNotFoundError string
  | KeyError string
  | ValidationError string
  | HTTPException nat string

text \<open>
  \<^verbatim>\<open>str(e)\<close>. A key error prints its key in quotes; the message of a validation error
  is kept abstract as the name of the schema or field.
\<close>

fun str_error :: "error \<Rightarrow> string" where
  "str_error (ValueError m) = m"
| "str_error (FileNotFoundError m) = m"
| "str_error (KeyError m) = [CHR 0x27] @ m @ [CHR 0x27]"
| "str_error (ValidationError m) = m"
| "str_error (HTTPException c m) = m"

section \<open>Geometry (src/core/utils.py)\<close>

definition radians :: "real \<Rightarrow> real" where
  "radians x = x * pi / 180"

text \<open>\<^verbatim>\<open>math.sqrt\<close> raises on a negative argument.\<close>

definition math_sqrt :: "real \<Rightarrow> error + real" where
  "math_sqrt x = (if x < 0 then Inl (ValueError ''math domain error'') else Inr (sqrt x))"

text \<open>\<^verbatim>\<open>math.atan2(y, x)\<close>: the angle of the point \<open>(x, y)\<close>, in \<open>(-\<pi>, \<pi>]\<close>.\<close>

definition atan2 :: "real \<Rightarrow> real \<Rightarrow> real" where
  "atan2 y x =
     (if 0 < x then arctan (y / x)
      else if x < 0 then (if 0 \<le> y then arctan (y / x) + pi else arctan (y / x) - pi)
      else if 0 < y then pi / 2
      else if y < 0 then - (pi / 2)
      else 0)"

text \<open>
  \<^verbatim>\<open>haversine_distance(lat1, lon1, lat2, lon2)\<close>. The memoisation of
  \<^verbatim>\<open>lru_cache\<close> does not change the value of a pure function and is left out.
\<close>

definition haversine_distance :: "real \<Rightarrow> real \<Rightarrow> real \<Rightarrow> real \<Rightarrow> error + real" where
  "haversine_distance lat1 lon1 lat2 lon2 =
     (let lat1_rad = radians lat1; lat2_rad = radians lat2;
          delta_lat = radians (lat2 - lat1); delta_lon = radians (lon2 - lon1);
          sin_dlat_2 = sin (delta_lat / 2);
          sin_dlon_2 = sin (delta_lon / 2);
          a = sin_dlat_2 * sin_dlat_2
              + cos lat1_rad * cos lat2_rad * sin_dlon_2 * sin_dlon_2
      in case math_sqrt a of
           Inl e \<Rightarrow> Inl e
         | Inr sqrt_a \<Rightarrow>
             (case math_sqrt (1 - a) of
                Inl e \<Rightarrow> Inl e
              | Inr sqrt_1a \<Rightarrow>
                  Inr (py_round (EARTH_RADIUS_KM * (2 * atan2 sqrt_a sqrt_1a)) 2)))"

text \<open>
  Line 43 of utils.py on its own, as a function of the quantity \<open>a\<close>:
  \<^verbatim>\<open>c = 2 * math.atan2(math.sqrt(a), math.sqrt(1 - a))\<close>.
\<close>

definition haversine_angle_of :: "real \<Rightarrow> error + real" where
  "haversine_angle_of a =
     (case math_sqrt a of
        Inl e \<Rightarrow> Inl e
      | Inr sqrt_a \<Rightarrow>
          (case math_sqrt (1 - a) of
             Inl e \<Rightarrow> Inl e
           | Inr sqrt_1a \<Rightarrow> Inr (2 * atan2 sqrt_a sqrt_1a)))"

text \<open>
  The specification's side of the distance: the great-circle distance of two points on a
  sphere of radius 6371 km is the radius times the angle between the two position
  vectors, and the cosine of that angle is their inner product.
\<close>

definition central_angle :: "real \<Rightarrow> real \<Rightarrow> real \<Rightarrow> real \<Rightarrow> real" where
  "central_angle phi1 lam1 phi2 lam2 =
     arccos (sin phi1 * sin phi2 + cos phi1 * cos phi2 * cos (lam2 - lam1))"

definition great_circle_km :: "real \<Rightarrow> real \<Rightarrow> real \<Rightarrow> real \<Rightarrow> real" where
  "great_circle_km lat1 lon1 lat2 lon2 =
     6371 * central_angle (radians lat1) (radians lon1) (radians lat2) (radians lon2)"

text \<open>The quantity \<open>a\<close> of the haversine formula, named for the proofs.\<close>

definition hav_a :: "real \<Rightarrow> real \<Rightarrow> real \<Rightarrow> real \<Rightarrow> real" where
  "hav_a lat1 lon1 lat2 lon2 =
     sin (radians (lat2 - lat1) / 2) * sin (radians (lat2 - lat1) / 2)
     + cos (radians lat1) * cos (radians lat2)
       * sin (radians (lon2 - lon1) / 2) * sin (radians (lon2 - lon1) / 2)"

section \<open>Requests, responses and settings\<close>

text \<open>
  A \<^verbatim>\<open>datetime\<close> is a number of microseconds since the epoch, a \<^verbatim>\<open>timedelta\<close>
  a number of microseconds.
\<close>

type_synonym datetime = int

definition timedelta_minutes :: "int \<Rightarrow> int" where
  "timedelta_minutes m = m * 60000000"

definition timedelta_hours :: "int \<Rightarrow> int" where
  "timedelta_hours h = h * 3600000000"

record Origin =
  latitude :: real
  longitude :: real
  region_name :: "string option"

text \<open>
  The destination of a route request is a free dictionary; its coordinates, when
  present, are numbers.
\<close>

record Destination =
  dest_latitude :: "real option"
  dest_longitude :: "real option"
  dest_name :: "string option"

record RouteRequest =
  route_req_origin :: Origin
  route_req_destination :: Destination
  route_req_quantity_tons :: "real option"

record Provenance =
  provider :: string
  cache :: bool
  cache_age_seconds :: "int option"
  request_id :: string
  generated_at :: datetime
  sources :: "string list"

record RouteETA =
  route_id :: string
  route_origin :: Origin
  route_destination :: Destination
  route_distance_km :: real
  duration_minutes :: int
  eta :: datetime
  co2_kg :: real
  route_quality :: string
  route_provenance :: Provenance

text \<open>The settings of src/core/config.py that the operations read.\<close>

record Settings =
  USE_MOCK :: bool
  SOURCE_MODE :: string
  CACHE_TTL_HOURS :: int
  PRICE_JITTER_MIN :: real
  PRICE_JITTER_MAX :: real

definition default_settings :: Settings where
  "default_settings =
     \<lparr>USE_MOCK = True, SOURCE_MODE = ''sandbox'', CACHE_TTL_HOURS = 24,
      PRICE_JITTER_MIN = 99 / 100, PRICE_JITTER_MAX = 102 / 100\<rparr>"

definition provider_of :: "Settings \<Rightarrow> string" where
  "provider_of st = (if SOURCE_MODE st = ''sandbox'' then ''mock-sandbox'' else ''live-api'')"

text \<open>\<^verbatim>\<open>s[-6:]\<close>: the last six characters, the whole string when it is shorter.\<close>

definition last6 :: "string \<Rightarrow> string" where
  "last6 s = drop (length s - 6) s"

section \<open>The route operation (src/routes/suppliers.py)\<close>

text \<open>Lines 304 to 309: the quality bucket of a distance.\<close>

definition route_quality_of :: "real \<Rightarrow> string" where
  "route_quality_of distance =
     (if distance < 10 then ''optimal''
      else if distance < 30 then ''good''
      else ''fair'')"

text \<open>
  The schema \<open>RouteETA\<close> constrains \<open>distance_km\<close>, \<open>duration_minutes\<close> and \<open>co2_kg\<close> to be
  at least 0 and raises on the first field that is not.
\<close>

definition validate_RouteETA :: "RouteETA \<Rightarrow> error + RouteETA" where
  "validate_RouteETA r =
     (if route_distance_km r < 0 then Inl (ValidationError ''distance_km'')
      else if duration_minutes r < 0 then Inl (ValidationError ''duration_minutes'')
      else if co2_kg r < 0 then Inl (ValidationError ''co2_kg'')
      else Inr r)"

definition missing_destination_detail :: string where
  "missing_destination_detail =
     ''Destination must include '' @ [CHR 0x27] @ ''latitude'' @ [CHR 0x27]
       @ '' and '' @ [CHR 0x27] @ ''longitude'' @ [CHR 0x27]"

text \<open>
  \<^verbatim>\<open>calculate_route_eta(request)\<close>. The simulated latency has no effect on the result.
  The arguments besides the request are the settings, the rendering of a date as
  \<^verbatim>\<open>%Y%m%d\<close>, the request id drawn for this call, and the clock: \<open>now k\<close> is what the
  \<open>k\<close>-th call of \<^verbatim>\<open>datetime.utcnow()\<close> in the body returns.
\<close>

definition calculate_route_eta ::
    "Settings \<Rightarrow> (datetime \<Rightarrow> string) \<Rightarrow> string \<Rightarrow> (nat \<Rightarrow> datetime) \<Rightarrow> RouteRequest
      \<Rightarrow> error + RouteETA" where
  "calculate_route_eta st ymd rid now request =
     (let dest_lat = dest_latitude (route_req_destination request);
          dest_lon = dest_longitude (route_req_destination request);
          dest_nm = (case dest_name (route_req_destination request) of
                       None \<Rightarrow> ''Supplier Location'' | Some n \<Rightarrow> n)
      in case (dest_lat, dest_lon) of
           (Some lat, Some lon) \<Rightarrow>
             (case haversine_distance (latitude (route_req_origin request))
                     (longitude (route_req_origin request)) lat lon of
                Inl e \<Rightarrow> Inl (HTTPException 500 (''Internal error: '' @ str_error e))
              | Inr distance \<Rightarrow>
                  (let avg_speed_kmh = 40;
                       duration_hours = distance / avg_speed_kmh;
                       duration_mins = py_int (duration_hours * 60);
                       eta_at = now 0 + timedelta_minutes duration_mins;
                       co2 = (case route_req_quantity_tons request of
                                None \<Rightarrow> calculate_co2_emissions 10 distance
                              | Some q \<Rightarrow>
                                  if q \<noteq> 0 then calculate_co2_emissions q distance
                                  else calculate_co2_emissions 10 distance);
                       quality = route_quality_of distance;
                       rt_id = ''ROUTE-'' @ ymd (now 1) @ ''-'' @ last6 rid;
                       prov = \<lparr>provider = provider_of st, cache = False,
                               cache_age_seconds = None, request_id = rid,
                               generated_at = now 2,
                               sources = [''mock-routing-engine'', ''haversine-distance'',
                                          ''co2-calculator'']\<rparr>
                   in case validate_RouteETA
                        \<lparr>route_id = rt_id, route_origin = route_req_origin request,
                         route_destination =
                           \<lparr>dest_latitude = dest_lat, dest_longitude = dest_lon,
                            dest_name = Some dest_nm\<rparr>,
                         route_distance_km = distance, duration_minutes = duration_mins,
                         eta = eta_at, co2_kg = co2, route_quality = quality,
                         route_provenance = prov\<rparr> of
                        Inl e \<Rightarrow> Inl (HTTPException 500 (''Internal error: '' @ str_error e))
                      | Inr r \<Rightarrow> Inr r))
         | _ \<Rightarrow> Inl (HTTPException 400 missing_destination_detail))"

section \<open>Suppliers and ranking (src/core/utils.py)\<close>

text \<open>
  A supplier is a dictionary read from a catalogue file. The keys the core reads are the
  fields of the record; \<open>None\<close> is an absent key. The values are of the types the schema
  \<open>Supplier\<close> of src/domain/schemas.py declares.
\<close>

record supplier =
  supplier_id :: "string option"
  name :: "string option"
  material_id :: "string option"
  material_name :: "string option"
  stock_tons :: "real option"
  price_inr_per_ton :: "real option"
  lead_time_days :: "int option"
  sup_latitude :: "real option"
  sup_longitude :: "real option"
  address :: "string option"
  rating :: "real option"
  distance_km :: "real option"
  allocated_tons :: "real option"
  estimated_cost_inr :: "real option"

text \<open>A number or \<^verbatim>\<open>float('inf')\<close>, ordered as Python orders them.\<close>

datatype ext = Fin real | PosInf

instantiation ext :: linorder
begin

fun less_eq_ext :: "ext \<Rightarrow> ext \<Rightarrow> bool" where
  "less_eq_ext (Fin x) (Fin y) = (x \<le> y)"
| "less_eq_ext (Fin x) PosInf = True"
| "less_eq_ext PosInf (Fin y) = False"
| "less_eq_ext PosInf PosInf = True"

definition less_ext :: "ext \<Rightarrow> ext \<Rightarrow> bool" where
  "less_ext a b = (a \<le> b \<and> \<not> b \<le> a)"

instance
proof
  fix x y z :: ext
  show "(x < y) = (x \<le> y \<and> \<not> y \<le> x)"
    by (rule less_ext_def)
  show "x \<le> x"
    by (cases x) simp_all
  show "x \<le> y \<Longrightarrow> y \<le> z \<Longrightarrow> x \<le> z"
    by (cases x; cases y; cases z) simp_all
  show "x \<le> y \<Longrightarrow> y \<le> x \<Longrightarrow> x = y"
    by (cases x; cases y) simp_all
  show "x \<le> y \<or> y \<le> x"
    by (cases x; cases y) auto
qed

end

text \<open>\<^verbatim>\<open>s.get(c, float('inf'))\<close> for a numeric key \<open>c\<close>.\<close>

definition get_or_inf :: "real option \<Rightarrow> ext" where
  "get_or_inf v = (case v of None \<Rightarrow> PosInf | Some x \<Rightarrow> Fin x)"

text \<open>
  The sort key of \<^verbatim>\<open>rank_suppliers\<close> for the default criteria
  \<^verbatim>\<open>["distance_km", "price_inr_per_ton", "lead_time_days"]\<close>; no caller passes other
  criteria. Python compares the tuples lexicographically, as the product order does.
\<close>

definition rank_key :: "supplier \<Rightarrow> ext \<times> ext \<times> ext" where
  "rank_key s =
     (get_or_inf (distance_km s),
      get_or_inf (price_inr_per_ton s),
      get_or_inf (map_option of_int (lead_time_days s)))"

text \<open>
  \<^verbatim>\<open>rank_suppliers(suppliers)\<close>. \<^verbatim>\<open>sorted\<close> is a stable sort; \<open>sort_key\<close> is the
  stable sort of the list library.
\<close>

definition rank_suppliers :: "supplier list \<Rightarrow> supplier list" where
  "rank_suppliers suppliers =
     (if suppliers = [] then [] else sort_key rank_key suppliers)"

text \<open>\<^verbatim>\<open>s.get("stock_tons", 0)\<close> and \<^verbatim>\<open>s.get("price_inr_per_ton", 0)\<close>.\<close>

definition get_stock :: "supplier \<Rightarrow> real" where
  "get_stock s = (case stock_tons s of None \<Rightarrow> 0 | Some x \<Rightarrow> x)"

definition get_price :: "supplier \<Rightarrow> real" where
  "get_price s = (case price_inr_per_ton s of None \<Rightarrow> 0 | Some x \<Rightarrow> x)"

definition filter_eligible_suppliers :: "supplier list \<Rightarrow> real \<Rightarrow> supplier list" where
  "filter_eligible_suppliers suppliers required_quantity =
     filter (\<lambda>s. get_stock s \<ge> required_quantity) suppliers"

text \<open>
  The loop of \<^verbatim>\<open>create_split_plan\<close> from one supplier on: the entries it appends
  to the plan. \<^verbatim>\<open>continue\<close> goes to the next supplier, \<^verbatim>\<open>break\<close> ends the plan.
\<close>

fun split_loop :: "supplier list \<Rightarrow> real \<Rightarrow> supplier list" where
  "split_loop [] remaining = []"
| "split_loop (supplier # rest) remaining =
     (let available = get_stock supplier
      in if available \<le> 0 then split_loop rest remaining
         else
           (let allocation = min available remaining
            in if allocation > 0
               then
                 (let split_supplier =
                        supplier\<lparr>allocated_tons := Some (py_round allocation 2),
                                 estimated_cost_inr :=
                                   Some (py_round (allocation * get_price supplier) 2)\<rparr>;
                      remaining' = remaining - allocation
                  in split_supplier
                       # (if remaining' \<le> 0 then [] else split_loop rest remaining'))
               else (if remaining \<le> 0 then [] else split_loop rest remaining)))"

definition create_split_plan :: "supplier list \<Rightarrow> real \<Rightarrow> supplier list" where
  "create_split_plan suppliers required_quantity =
     (if suppliers = [] then []
      else split_loop (take 3 suppliers) required_quantity)"





section \<open>The response cache (src/core/cache.py)\<close>

text \<open>
  An entry of the cache, the manager with its store and its default time-to-live, and
  what \<^verbatim>\<open>get\<close> returns on a hit. The store is keyed by the fingerprint of the
  parameters; the fingerprint function (a truncated SHA-256 of their JSON rendering) is
  the argument \<open>generate_key\<close> of the operations.
\<close>

record 'v cache_entry =
  entry_data :: 'v
  cached_at :: datetime
  expiry :: datetime

record 'v CacheManager =
  cache_store :: "string \<rightharpoonup> 'v cache_entry"
  default_ttl :: int

record 'v cache_hit_result =
  hit_data :: 'v
  hit_cached_at :: datetime
  age_seconds :: int
  cache_hit :: bool

definition new_CacheManager :: "int \<Rightarrow> 'v CacheManager" where
  "new_CacheManager default_ttl_hours =
     \<lparr>cache_store = Map.empty, default_ttl = timedelta_hours default_ttl_hours\<rparr>"

text \<open>\<^verbatim>\<open>int(delta.total_seconds())\<close> of a difference of two datetimes.\<close>

definition total_seconds_int :: "int \<Rightarrow> int" where
  "total_seconds_int delta = py_int (of_int delta / 1000000)"

text \<open>
  \<^verbatim>\<open>CacheManager.get(**kwargs)\<close>. The clock is read when the expiry is tested
  (\<open>now_check\<close>) and when the age is computed (\<open>now_age\<close>); a third reading, the default
  of \<^verbatim>\<open>entry.get("cached_at", ...)\<close>, is never used, since every entry has the key. An
  expired entry is deleted from the store.
\<close>

definition cache_get ::
    "('k \<Rightarrow> string) \<Rightarrow> datetime \<Rightarrow> datetime \<Rightarrow> 'v CacheManager \<Rightarrow> 'k
      \<Rightarrow> 'v cache_hit_result option \<times> 'v CacheManager" where
  "cache_get generate_key now_check now_age c kwargs =
     (let cache_key = generate_key kwargs
      in case cache_store c cache_key of
           None \<Rightarrow> (None, c)
         | Some entry \<Rightarrow>
             if now_check > expiry entry
             then (None, c\<lparr>cache_store := (cache_store c)(cache_key := None)\<rparr>)
             else (Some \<lparr>hit_data = entry_data entry, hit_cached_at = cached_at entry,
                          age_seconds = total_seconds_int (now_age - cached_at entry),
                          cache_hit = True\<rparr>, c))"

text \<open>
  \<^verbatim>\<open>CacheManager.set(data, ttl_hours, **kwargs)\<close>. The test \<^verbatim>\<open>if ttl_hours\<close> takes
  the default both for \<open>None\<close> and for 0. The clock is read once for \<open>cached_at\<close> and once
  for \<open>expiry\<close>.
\<close>

definition cache_set ::
    "('k \<Rightarrow> string) \<Rightarrow> datetime \<Rightarrow> datetime \<Rightarrow> 'v CacheManager \<Rightarrow> 'v \<Rightarrow> int option \<Rightarrow> 'k
      \<Rightarrow> 'v CacheManager" where
  "cache_set generate_key now_cached now_expiry c data ttl_hours kwargs =
     (let cache_key = generate_key kwargs;
          ttl = (case ttl_hours of
                   None \<Rightarrow> default_ttl c
                 | Some h \<Rightarrow> if h \<noteq> 0 then timedelta_hours h else default_ttl c)
      in c\<lparr>cache_store := (cache_store c)(cache_key \<mapsto>
            \<lparr>entry_data = data, cached_at = now_cached, expiry = now_expiry + ttl\<rparr>)\<rparr>)"

definition cache_clear :: "'v CacheManager \<Rightarrow> 'v CacheManager" where
  "cache_clear c = c\<lparr>cache_store := Map.empty\<rparr>"

definition cache_delete :: "('k \<Rightarrow> string) \<Rightarrow> 'v CacheManager \<Rightarrow> 'k \<Rightarrow> 'v CacheManager" where
  "cache_delete generate_key c kwargs =
     c\<lparr>cache_store := (cache_store c)(generate_key kwargs := None)\<rparr>"

section \<open>The catalogue (src/core/utils.py)\<close>

definition MATERIAL_FILE_MAP :: "string \<rightharpoonup> string" where
  "MATERIAL_FILE_MAP = map_of
     [(''cement_opc_53'', ''cement_suppliers_mock.json''),
      (''cement'', ''cement_suppliers_mock.json''),
      (''sand_river'', ''sand_suppliers_mock.json''),
      (''sand'', ''sand_suppliers_mock.json''),
      (''aggregate_20mm'', ''aggregate_suppliers_mock.json''),
      (''aggregate'', ''aggregate_suppliers_mock.json''),
      (''gravel'', ''aggregate_suppliers_mock.json''),
      (''bricks_red'', ''bricks_suppliers_mock.json''),
      (''bricks'', ''bricks_suppliers_mock.json'')]"

text \<open>
  \<^verbatim>\<open>str.lower()\<close>, on the letters A to Z (codes 65 to 90): the lower-case letter is
  32 above, which is the same code with bit 5 set.
\<close>

fun set_bit5 :: "char \<Rightarrow> char" where
  "set_bit5 (Char b0 b1 b2 b3 b4 b5 b6 b7) = Char b0 b1 b2 b3 b4 True b6 b7"

definition lower_char :: "char \<Rightarrow> char" where
  "lower_char c =
     (let n = (of_char c :: nat)
      in if 65 \<le> n \<and> n \<le> 90 then set_bit5 c else c)"

definition lower :: "string \<Rightarrow> string" where
  "lower s = map lower_char s"

text \<open>
  What reading and parsing a catalogue file gives: no such file, a file that is not JSON,
  or the parsed dictionary, of which the core reads the key \<^verbatim>\<open>suppliers\<close> (\<open>None\<close> when
  the dictionary has no such key). The file system is the argument \<open>read_file\<close>.
\<close>

datatype file_content = NoSuchFile | InvalidJSON string | Json "supplier list option"

text \<open>
  \<^verbatim>\<open>load_supplier_data(material_id)\<close>, with the directory of the application and the
  file system as arguments; the module's cache of loaded data is passed in and returned.
\<close>

definition load_supplier_data ::
    "string \<Rightarrow> (string \<Rightarrow> file_content) \<Rightarrow> (string \<rightharpoonup> supplier list option) \<Rightarrow> string
      \<Rightarrow> (error + supplier list option) \<times> (string \<rightharpoonup> supplier list option)" where
  "load_supplier_data base_dir read_file data_cache mat_id =
     (let material_key = lower mat_id
      in case data_cache material_key of
           Some data \<Rightarrow> (Inr data, data_cache)
         | None \<Rightarrow>
             (case MATERIAL_FILE_MAP material_key of
                None \<Rightarrow> (Inl (ValueError (''Unknown material_id: '' @ mat_id)), data_cache)
              | Some filename \<Rightarrow>
                  if filename = []
                  then (Inl (ValueError (''Unknown material_id: '' @ mat_id)), data_cache)
                  else
                    (let file_path = base_dir @ ''/data/'' @ filename
                     in case read_file file_path of
                          NoSuchFile \<Rightarrow>
                            (Inl (FileNotFoundError
                                   (''Supplier data file not found: '' @ file_path)),
                             data_cache)
                        | InvalidJSON msg \<Rightarrow>
                            (Inl (ValueError
                                   (''Invalid JSON in supplier data file: '' @ msg)),
                             data_cache)
                        | Json data \<Rightarrow>
                            (Inr data, data_cache(material_key \<mapsto> data)))))"

section \<open>The search operation (src/routes/suppliers.py)\<close>

record SupplierSearchRequest =
  search_origin :: Origin
  material :: string
  search_quantity_tons :: real

record search_cache_key =
  key_endpoint :: string
  key_material :: string
  key_lat :: real
  key_lon :: real
  key_qty :: real

record SupplierBundle =
  bundle_origin :: Origin
  bundle_material :: string
  bundle_quantity_tons :: real
  bundle_suppliers :: "supplier list"
  recommended :: "supplier option"
  ranking_criteria :: "string list"
  bundle_provenance :: Provenance

text \<open>The state the operation works on: the response cache and the loaded catalogues.\<close>

record app_state =
  cache_manager :: "SupplierBundle CacheManager"
  supplier_data_cache :: "string \<rightharpoonup> supplier list option"

definition initial_state :: app_state where
  "initial_state =
     \<lparr>cache_manager = new_CacheManager 24, supplier_data_cache = Map.empty\<rparr>"

text \<open>
  \<^verbatim>\<open>Supplier(**s)\<close>: the schema requires every field but \<open>distance_km\<close>, constrains the
  numbers, and ignores the keys it does not declare.
\<close>

definition supplier_valid :: "supplier \<Rightarrow> bool" where
  "supplier_valid s =
     (supplier_id s \<noteq> None \<and> name s \<noteq> None \<and> material_id s \<noteq> None
      \<and> material_name s \<noteq> None \<and> address s \<noteq> None
      \<and> (case stock_tons s of None \<Rightarrow> False | Some x \<Rightarrow> 0 \<le> x)
      \<and> (case price_inr_per_ton s of None \<Rightarrow> False | Some x \<Rightarrow> 0 \<le> x)
      \<and> (case lead_time_days s of None \<Rightarrow> False | Some x \<Rightarrow> 0 \<le> x)
      \<and> (case sup_latitude s of None \<Rightarrow> False | Some x \<Rightarrow> - 90 \<le> x \<and> x \<le> 90)
      \<and> (case sup_longitude s of None \<Rightarrow> False | Some x \<Rightarrow> - 180 \<le> x \<and> x \<le> 180)
      \<and> (case rating s of None \<Rightarrow> False | Some x \<Rightarrow> 0 \<le> x \<and> x \<le> 5)
      \<and> (case distance_km s of None \<Rightarrow> True | Some x \<Rightarrow> 0 \<le> x))"

definition validate_Supplier :: "supplier \<Rightarrow> error + supplier" where
  "validate_Supplier s =
     (if supplier_valid s
      then Inr (s\<lparr>allocated_tons := None, estimated_cost_inr := None\<rparr>)
      else Inl (ValidationError ''Supplier''))"

fun validate_all :: "supplier list \<Rightarrow> error + supplier list" where
  "validate_all [] = Inr []"
| "validate_all (s # rest) =
     (case validate_Supplier s of
        Inl e \<Rightarrow> Inl e
      | Inr v \<Rightarrow> (case validate_all rest of Inl e \<Rightarrow> Inl e | Inr vs \<Rightarrow> Inr (v # vs)))"

definition validate_SupplierBundle :: "SupplierBundle \<Rightarrow> error + SupplierBundle" where
  "validate_SupplierBundle b =
     (if bundle_quantity_tons b < 0 then Inl (ValidationError ''quantity_tons'') else Inr b)"

text \<open>
  Lines 86 to 95: every supplier of the catalogue with its distance from the origin.
  \<^verbatim>\<open>supplier["latitude"]\<close> raises on a supplier without the key.
\<close>

fun enrich_suppliers :: "real \<Rightarrow> real \<Rightarrow> supplier list \<Rightarrow> error + supplier list" where
  "enrich_suppliers origin_lat origin_lon [] = Inr []"
| "enrich_suppliers origin_lat origin_lon (s # rest) =
     (case sup_latitude s of
        None \<Rightarrow> Inl (KeyError ''latitude'')
      | Some lat \<Rightarrow>
          (case sup_longitude s of
             None \<Rightarrow> Inl (KeyError ''longitude'')
           | Some lon \<Rightarrow>
               (case haversine_distance origin_lat origin_lon lat lon of
                  Inl e \<Rightarrow> Inl e
                | Inr d \<Rightarrow>
                    (case enrich_suppliers origin_lat origin_lon rest of
                       Inl e \<Rightarrow> Inl e
                     | Inr r \<Rightarrow> Inr (s\<lparr>distance_km := Some d\<rparr> # r)))))"

text \<open>Lines 103 to 113: the recommendation.\<close>

definition recommend :: "supplier list \<Rightarrow> real \<Rightarrow> error + supplier option" where
  "recommend ranked qty =
     (case filter_eligible_suppliers ranked qty of
        best # _ \<Rightarrow>
          (case validate_Supplier best of Inl e \<Rightarrow> Inl e | Inr v \<Rightarrow> Inr (Some v))
      | [] \<Rightarrow>
          if ranked \<noteq> []
          then (case create_split_plan ranked qty of
                  first # _ \<Rightarrow>
                    (case validate_Supplier first of Inl e \<Rightarrow> Inl e | Inr v \<Rightarrow> Inr (Some v))
                | [] \<Rightarrow> Inr None)
          else Inr None)"

text \<open>
  The body of the \<^verbatim>\<open>try\<close> block up to the response, lines 80 to 137; \<open>generated\<close> is
  the clock reading of the provenance.
\<close>

definition search_response ::
    "Settings \<Rightarrow> string \<Rightarrow> datetime \<Rightarrow> string \<Rightarrow> (string \<Rightarrow> file_content)
      \<Rightarrow> (string \<rightharpoonup> supplier list option) \<Rightarrow> SupplierSearchRequest
      \<Rightarrow> (error + SupplierBundle) \<times> (string \<rightharpoonup> supplier list option)" where
  "search_response st rid generated base_dir read_file data_cache request =
     (case load_supplier_data base_dir read_file data_cache (material request) of
        (Inl e, dc) \<Rightarrow> (Inl e, dc)
      | (Inr supplier_data, dc) \<Rightarrow>
          (let suppliers_list = (case supplier_data of None \<Rightarrow> [] | Some l \<Rightarrow> l)
           in case enrich_suppliers (latitude (search_origin request))
                     (longitude (search_origin request)) suppliers_list of
                Inl e \<Rightarrow> (Inl e, dc)
              | Inr enriched_suppliers \<Rightarrow>
                  (let ranked = rank_suppliers enriched_suppliers
                   in case recommend ranked (search_quantity_tons request) of
                        Inl e \<Rightarrow> (Inl e, dc)
                      | Inr rec \<Rightarrow>
                          (case validate_all ranked of
                             Inl e \<Rightarrow> (Inl e, dc)
                           | Inr all_suppliers \<Rightarrow>
                               (validate_SupplierBundle
                                  \<lparr>bundle_origin = search_origin request,
                                   bundle_material = material request,
                                   bundle_quantity_tons = search_quantity_tons request,
                                   bundle_suppliers = all_suppliers,
                                   recommended = rec,
                                   ranking_criteria = [''distance'', ''price'', ''lead_time''],
                                   bundle_provenance =
                                     \<lparr>provider = provider_of st, cache = False,
                                      cache_age_seconds = None, request_id = rid,
                                      generated_at = generated,
                                      sources = [''mock-suppliers-db'',
                                                 ''haversine-distance-calc'']\<rparr>\<rparr>,
                                dc)))))"

text \<open>The \<^verbatim>\<open>except\<close> clauses of the search operation, lines 148 to 153.\<close>

fun search_except :: "error \<Rightarrow> error" where
  "search_except (FileNotFoundError m) = HTTPException 404 m"
| "search_except (ValueError m) = HTTPException 400 m"
| "search_except (ValidationError m) = HTTPException 400 m"
| "search_except e = HTTPException 500 (''Internal error: '' @ str_error e)"

definition search_key_params :: "SupplierSearchRequest \<Rightarrow> search_cache_key" where
  "search_key_params request =
     \<lparr>key_endpoint = ''suppliers_search'', key_material = material request,
      key_lat = py_round (latitude (search_origin request)) 4,
      key_lon = py_round (longitude (search_origin request)) 4,
      key_qty = search_quantity_tons request\<rparr>"

text \<open>
  \<^verbatim>\<open>search_suppliers(request)\<close>. The arguments are the settings, the fingerprint
  function of the cache, the request id drawn for this call, the clock (\<open>now 0\<close> and
  \<open>now 1\<close> are read by the cache lookup, \<open>now 2\<close> for the provenance, \<open>now 3\<close> and \<open>now 4\<close>
  by the cache store), the application directory, the file system, and the state. On a
  hit the dictionary held by the cache is the one that is updated and returned.
\<close>

definition search_suppliers ::
    "Settings \<Rightarrow> (search_cache_key \<Rightarrow> string) \<Rightarrow> string \<Rightarrow> (nat \<Rightarrow> datetime) \<Rightarrow> string
      \<Rightarrow> (string \<Rightarrow> file_content) \<Rightarrow> app_state \<Rightarrow> SupplierSearchRequest
      \<Rightarrow> (error + SupplierBundle) \<times> app_state" where
  "search_suppliers st generate_key rid now base_dir read_file s request =
     (let cache_key_params = search_key_params request;
          (cached, cm) = cache_get generate_key (now 0) (now 1) (cache_manager s)
                           cache_key_params
      in case (if USE_MOCK st then cached else None) of
           Some hit \<Rightarrow>
             (let data = (hit_data hit)
                    \<lparr>bundle_provenance := (bundle_provenance (hit_data hit))
                       \<lparr>cache := True, cache_age_seconds := Some (age_seconds hit),
                        request_id := rid\<rparr>\<rparr>;
                  k = generate_key cache_key_params
              in (Inr data,
                  s\<lparr>cache_manager := cm\<lparr>cache_store := (cache_store cm)
                       (k := map_option (\<lambda>entry. entry\<lparr>entry_data := data\<rparr>)
                               (cache_store cm k))\<rparr>\<rparr>))
         | None \<Rightarrow>
             (case search_response st rid (now 2) base_dir read_file
                     (supplier_data_cache s) request of
                (Inl e, dc) \<Rightarrow>
                  (Inl (search_except e),
                   s\<lparr>cache_manager := cm, supplier_data_cache := dc\<rparr>)
              | (Inr response, dc) \<Rightarrow>
                  (Inr response,
                   s\<lparr>cache_manager :=
                        cache_set generate_key (now 3) (now 4) cm response
                          (Some (CACHE_TTL_HOURS st)) cache_key_params,
                     supplier_data_cache := dc\<rparr>)))"

section \<open>Example inputs\<close>

text \<open>Inputs at which the theorems below are instantiated.\<close>

definition example_ymd :: "datetime \<Rightarrow> string" where
  "example_ymd t = ''20251108''"

definition example_clock :: "nat \<Rightarrow> datetime" where
  "example_clock k = 1762597800000000"

text \<open>A route from (0, 0) half way round the equator, to (0, 180).\<close>

definition antipodal_request :: "real option \<Rightarrow> RouteRequest" where
  "antipodal_request q =
     \<lparr>route_req_origin = \<lparr>latitude = 0, longitude = 0, region_name = None\<rparr>,
      route_req_destination =
        \<lparr>dest_latitude = Some 0, dest_longitude = Some 180, dest_name = None\<rparr>,
      route_req_quantity_tons = q\<rparr>"

definition half_equator_km :: real where
  "half_equator_km = py_round (6371 * pi) 2"

text \<open>The response to that request when the emissions are computed for \<open>tons\<close> tons.\<close>

definition antipodal_route :: "real \<Rightarrow> RouteETA" where
  "antipodal_route tons =
     \<lparr>route_id = ''ROUTE-20251108-6789ab'',
      route_origin = \<lparr>latitude = 0, longitude = 0, region_name = None\<rparr>,
      route_destination =
        \<lparr>dest_latitude = Some 0, dest_longitude = Some 180,
         dest_name = Some ''Supplier Location''\<rparr>,
      route_distance_km = half_equator_km,
      duration_minutes = py_int (half_equator_km / 40 * 60),
      eta = 1762597800000000 + timedelta_minutes (py_int (half_equator_km / 40 * 60)),
      co2_kg = calculate_co2_emissions tons half_equator_km,
      route_quality = ''fair'',
      route_provenance =
        \<lparr>provider = ''mock-sandbox'', cache = False, cache_age_seconds = None,
         request_id = ''req-0123456789ab'', generated_at = 1762597800000000,
         sources = [''mock-routing-engine'', ''haversine-distance'', ''co2-calculator'']\<rparr>\<rparr>"

text \<open>Catalogue entries: only the keys the ranking and the split plan read are set.\<close>

definition mk_supplier ::
    "string \<Rightarrow> real option \<Rightarrow> real option \<Rightarrow> int option \<Rightarrow> real option \<Rightarrow> supplier" where
  "mk_supplier sid stock price lead dkm =
     \<lparr>supplier_id = Some sid, name = None, material_id = Some ''cement'',
      material_name = None, stock_tons = stock, price_inr_per_ton = price,
      lead_time_days = lead, sup_latitude = None, sup_longitude = None, address = None,
      rating = None, distance_km = dkm, allocated_tons = None,
      estimated_cost_inr = None\<rparr>"


definition sup_a :: supplier where
  "sup_a = mk_supplier ''SUP-A'' (Some 500) (Some 6800) (Some 2) None"

definition sup_b :: supplier where
  "sup_b = mk_supplier ''SUP-B'' (Some 20) (Some 7000) (Some 2) (Some 5)"

definition sup_c :: supplier where
  "sup_c = mk_supplier ''SUP-C'' None (Some 6900) (Some 3) (Some 5)"

definition sup_d :: supplier where
  "sup_d = mk_supplier ''SUP-D'' (Some (25 / 2)) (Some 7100) (Some 1) (Some 8)"


text \<open>A search for a material the catalogue does not have, with no file on disk.\<close>

definition example_search_key :: "search_cache_key \<Rightarrow> string" where
  "example_search_key p = key_endpoint p @ ''/'' @ key_material p"



text \<open>
  A catalogue of one cement depot, the search for 50 tons of cement, and the bundle the
  search returns for a depot \<open>d\<close> km away.
\<close>

definition depot :: supplier where
  "depot =
     \<lparr>supplier_id = Some ''SUP-CEM-001'', name = Some ''Bandlaguda Cement Depot'',
      material_id = Some ''cement'', material_name = Some ''Portland Cement'',
      stock_tons = Some 500, price_inr_per_ton = Some 6800, lead_time_days = Some 2,
      sup_latitude = Some 17, sup_longitude = Some 79,
      address = Some ''Plot 42, Industrial Area'', rating = Some 4.5,
      distance_km = None, allocated_tons = None, estimated_cost_inr = None\<rparr>"

definition cement_fs :: "string \<Rightarrow> file_content" where
  "cement_fs path =
     (if path = ''/app/data/cement_suppliers_mock.json'' then Json (Some [depot])
      else NoSuchFile)"

definition cement_request :: SupplierSearchRequest where
  "cement_request =
     \<lparr>search_origin = \<lparr>latitude = 17, longitude = 78, region_name = None\<rparr>,
      material = ''cement'', search_quantity_tons = 50\<rparr>"

definition cement_bundle :: "real \<Rightarrow> string \<Rightarrow> bool \<Rightarrow> int option \<Rightarrow> SupplierBundle" where
  "cement_bundle d rid hit age =
     \<lparr>bundle_origin = \<lparr>latitude = 17, longitude = 78, region_name = None\<rparr>,
      bundle_material = ''cement'', bundle_quantity_tons = 50,
      bundle_suppliers = [depot\<lparr>distance_km := Some d\<rparr>],
      recommended = Some (depot\<lparr>distance_km := Some d\<rparr>),
      ranking_criteria = [''distance'', ''price'', ''lead_time''],
      bundle_provenance =
        \<lparr>provider = ''mock-sandbox'', cache = hit, cache_age_seconds = age,
         request_id = rid, generated_at = 1762597800000000,
         sources = [''mock-suppliers-db'', ''haversine-distance-calc'']\<rparr>\<rparr>"

section \<open>Rounding lemmas\<close>

lemma rhe_lower: "y - 1 / 2 \<le> of_int (round_half_even y)"
  unfolding round_half_even_def Let_def by (auto; linarith)


lemma rhe_of_int: "round_half_even (of_int k) = k"
  unfolding round_half_even_def Let_def by simp

lemma rhe_ge_floor: "\<lfloor>y\<rfloor> \<le> round_half_even y"
  unfolding round_half_even_def Let_def by simp

lemma rhe_le_floor1: "round_half_even y \<le> \<lfloor>y\<rfloor> + 1"
  unfolding round_half_even_def Let_def by simp

lemma rhe_mono:
  assumes "x \<le> y"
  shows "round_half_even x \<le> round_half_even y"
proof (cases "\<lfloor>x\<rfloor> = \<lfloor>y\<rfloor>")
  case True
  have "x - of_int \<lfloor>y\<rfloor> \<le> y - of_int \<lfloor>y\<rfloor>"
    using assms by simp
  then show ?thesis
    unfolding round_half_even_def Let_def True by auto
next
  case False
  with assms have "\<lfloor>x\<rfloor> + 1 \<le> \<lfloor>y\<rfloor>"
    using floor_mono [of x y] by linarith
  then show ?thesis
    using rhe_le_floor1 [of x] rhe_ge_floor [of y] by linarith
qed

lemma py_round_mono: "x \<le> y \<Longrightarrow> py_round x n \<le> py_round y n"
  unfolding py_round_def by (simp add: rhe_mono divide_right_mono)

lemma py_round_lower: "x - 1 / (2 * 10 ^ n) \<le> py_round x n"
proof -
  have "x * 10 ^ n - 1 / 2 \<le> of_int (round_half_even (x * 10 ^ n))"
    by (rule rhe_lower)
  then have "(x * 10 ^ n - 1 / 2) / 10 ^ n \<le> py_round x n"
    unfolding py_round_def by (simp add: divide_right_mono)
  then show ?thesis
    by (simp add: field_simps)
qed


lemma py_round_grid: "py_round (of_int k / 10 ^ n) n = of_int k / 10 ^ n"
  unfolding py_round_def by (simp add: rhe_of_int)

lemma py_round_0: "py_round 0 n = 0"
  using py_round_grid [of 0 n] by simp

lemma py_round_nonneg: "0 \<le> x \<Longrightarrow> 0 \<le> py_round x n"
  using py_round_mono [of 0 x n] by (simp add: py_round_0)


section \<open>Price jitter\<close>




section \<open>The haversine distance\<close>

lemma haversine_unfold:
  "haversine_distance lat1 lon1 lat2 lon2 =
     (if hav_a lat1 lon1 lat2 lon2 < 0 \<or> 1 < hav_a lat1 lon1 lat2 lon2
      then Inl (ValueError ''math domain error'')
      else Inr (py_round (EARTH_RADIUS_KM *
             (2 * atan2 (sqrt (hav_a lat1 lon1 lat2 lon2))
                        (sqrt (1 - hav_a lat1 lon1 lat2 lon2)))) 2))"
  by (simp add: haversine_distance_def hav_a_def math_sqrt_def Let_def)

lemma radians_diff: "radians (x - y) = radians x - radians y"
  by (simp add: radians_def field_simps)

lemma sin_sq_swap:
  "sin ((x - y) / 2) * sin ((x - y) / 2) = sin ((y - x) / 2) * sin ((y - x) / 2)"
  for x y :: real
proof -
  have "(x - y) / 2 = - ((y - x) / 2)"
    by (simp add: field_simps)
  then have "sin ((x - y) / 2) = - sin ((y - x) / 2)"
    by (metis sin_minus)
  then show ?thesis
    by simp
qed

lemma hav_a_sym: "hav_a lat1 lon1 lat2 lon2 = hav_a lat2 lon2 lat1 lon1"
  unfolding hav_a_def radians_diff
  using sin_sq_swap [of "radians lat2" "radians lat1"]
        sin_sq_swap [of "radians lon2" "radians lon1"]
  by (simp add: mult.assoc mult.left_commute)

lemma hav_a_diag: "hav_a lat lon lat lon = 0"
  by (simp add: hav_a_def radians_def)

lemma atan2_sqrt:
  assumes "0 \<le> a" and "a \<le> 1"
  shows "atan2 (sqrt a) (sqrt (1 - a)) = arcsin (sqrt a)"
proof (cases "a = 1")
  case True
  then show ?thesis
    by (simp add: atan2_def)
next
  case False
  with assms have lt: "a < 1"
    by simp
  then have pos: "0 < sqrt (1 - a)"
    by simp
  have x: "- 1 < sqrt a" "sqrt a < 1"
    using assms lt by (simp_all add: less_le_trans [of "-1" 0])
  have "arcsin (sqrt a) = arctan (sqrt a / sqrt (1 - (sqrt a)\<^sup>2))"
    using x by (rule arcsin_arctan)
  also have "(sqrt a)\<^sup>2 = a"
    using assms by simp
  finally show ?thesis
    using pos by (simp add: atan2_def)
qed

lemma half_angle: "sin (x / 2) * sin (x / 2) = (1 - cos x) / 2" for x :: real
proof -
  have "cos (2 * (x / 2)) = 1 - 2 * (sin (x / 2))\<^sup>2"
    by (rule cos_double_sin)
  then show ?thesis
    by (simp add: power2_eq_square)
qed

text \<open>One minus twice the haversine quantity is the inner product of the two points.\<close>

lemma hav_a_dot:
  "1 - 2 * hav_a lat1 lon1 lat2 lon2 =
     sin (radians lat1) * sin (radians lat2)
     + cos (radians lat1) * cos (radians lat2) * cos (radians lon2 - radians lon1)"
proof -
  have a: "hav_a lat1 lon1 lat2 lon2 =
      (1 - cos (radians lat2 - radians lat1)) / 2
      + cos (radians lat1) * cos (radians lat2) * ((1 - cos (radians lon2 - radians lon1)) / 2)"
    unfolding hav_a_def radians_diff
    by (simp add: half_angle mult.assoc)
  have alg: "1 - 2 * ((1 - A) / 2 + c * ((1 - B) / 2)) = A - c + c * B" for A B c :: real
    by (simp add: field_simps)
  have "cos (radians lat2 - radians lat1) - cos (radians lat1) * cos (radians lat2)
        = sin (radians lat1) * sin (radians lat2)"
    by (simp add: cos_diff)
  then show ?thesis
    unfolding a alg by simp
qed

lemma cos_radians_nonneg:
  assumes "- 90 \<le> lat" and "lat \<le> 90"
  shows "0 \<le> cos (radians lat)"
proof (rule cos_ge_zero)
  have "- 90 * pi \<le> lat * pi"
    using assms(1) by (intro mult_right_mono) simp_all
  then show "- (pi / 2) \<le> radians lat"
    by (simp add: radians_def)
  have "lat * pi \<le> 90 * pi"
    using assms(2) by (intro mult_right_mono) simp_all
  then show "radians lat \<le> pi / 2"
    by (simp add: radians_def)
qed

lemma hav_a_range:
  assumes "- 90 \<le> lat1" "lat1 \<le> 90" "- 90 \<le> lat2" "lat2 \<le> 90"
  shows "0 \<le> hav_a lat1 lon1 lat2 lon2" and "hav_a lat1 lon1 lat2 lon2 \<le> 1"
proof -
  let ?c = "cos (radians lat1) * cos (radians lat2)"
  let ?s = "sin (radians (lon2 - lon1) / 2)"
  have c: "0 \<le> ?c"
    using assms by (simp add: cos_radians_nonneg)
  have a: "hav_a lat1 lon1 lat2 lon2 =
      sin (radians (lat2 - lat1) / 2) * sin (radians (lat2 - lat1) / 2) + ?c * (?s * ?s)"
    by (simp add: hav_a_def mult.assoc)
  have s0: "0 \<le> ?s * ?s"
    by simp
  have t1: "0 \<le> sin (radians (lat2 - lat1) / 2) * sin (radians (lat2 - lat1) / 2)"
    by simp
  have t2: "0 \<le> ?c * (?s * ?s)"
    using c s0 by (rule mult_nonneg_nonneg)
  show "0 \<le> hav_a lat1 lon1 lat2 lon2"
    unfolding a using t1 t2 by linarith
  have "(1 - cos (radians (lon2 - lon1))) / 2 \<le> 1"
    using cos_ge_minus_one [of "radians (lon2 - lon1)"] by simp
  then have s1: "?s * ?s \<le> 1"
    by (simp only: half_angle)
  have "?c * (?s * ?s) \<le> ?c * 1"
    using s1 c by (rule mult_left_mono)
  then have "hav_a lat1 lon1 lat2 lon2 \<le> (1 - cos (radians lat2 - radians lat1)) / 2 + ?c"
    unfolding a by (simp add: half_angle radians_diff)
  also have "\<dots> = (1 + cos (radians lat2 + radians lat1)) / 2"
    by (simp add: cos_diff cos_add field_simps)
  also have "\<dots> \<le> 1"
    using cos_le_one [of "radians lat2 + radians lat1"] by simp
  finally show "hav_a lat1 lon1 lat2 lon2 \<le> 1" .
qed

text \<open>The angle the code computes with \<open>atan2\<close> is the one whose cosine is \<open>1 - 2a\<close>.\<close>

lemma haversine_angle:
  assumes "0 \<le> a" and "a \<le> 1"
  shows "2 * atan2 (sqrt a) (sqrt (1 - a)) = arccos (1 - 2 * a)"
proof -
  let ?t = "arcsin (sqrt a)"
  have r: "- 1 \<le> sqrt a" "sqrt a \<le> 1"
    using assms by (simp_all add: order_trans [of "-1" 0])
  have "0 \<le> ?t"
    using assms by (intro arcsin_nonneg) simp
  moreover have "?t \<le> pi / 2"
    using r by (rule arcsin_ubound)
  ultimately have b: "0 \<le> 2 * ?t" "2 * ?t \<le> pi"
    by simp_all
  have "cos (2 * ?t) = 1 - 2 * (sin ?t)\<^sup>2"
    by (rule cos_double_sin)
  also have "sin ?t = sqrt a"
    using r by (rule sin_arcsin)
  also have "(sqrt a)\<^sup>2 = a"
    using assms by simp
  finally have "arccos (1 - 2 * a) = arccos (cos (2 * ?t))"
    by simp
  also have "\<dots> = 2 * ?t"
    using b by (rule arccos_cos)
  finally show ?thesis
    using assms by (simp add: atan2_sqrt)
qed

lemma haversine_is_great_circle:
  assumes "- 90 \<le> lat1" "lat1 \<le> 90" "- 90 \<le> lat2" "lat2 \<le> 90"
  shows "haversine_distance lat1 lon1 lat2 lon2 =
           Inr (py_round (great_circle_km lat1 lon1 lat2 lon2) 2)"
proof -
  note rg = hav_a_range [OF assms, of lon1 lon2]
  have "2 * atan2 (sqrt (hav_a lat1 lon1 lat2 lon2)) (sqrt (1 - hav_a lat1 lon1 lat2 lon2))
        = central_angle (radians lat1) (radians lon1) (radians lat2) (radians lon2)"
    using haversine_angle [OF rg] by (simp add: central_angle_def hav_a_dot)
  then show ?thesis
    using rg by (simp add: haversine_unfold great_circle_km_def EARTH_RADIUS_KM_def)
qed

lemma haversine_sym:
  "haversine_distance lat1 lon1 lat2 lon2 = haversine_distance lat2 lon2 lat1 lon1"
  unfolding haversine_unfold using hav_a_sym [of lat1 lon1 lat2 lon2] by simp

lemma haversine_diag: "haversine_distance lat lon lat lon = Inr 0"
  by (simp add: haversine_unfold hav_a_diag atan2_def py_round_0)

lemma haversine_nonneg:
  assumes "haversine_distance lat1 lon1 lat2 lon2 = Inr d"
  shows "0 \<le> d"
proof -
  let ?a = "hav_a lat1 lon1 lat2 lon2"
  from assms have r: "0 \<le> ?a" "?a \<le> 1"
    and d: "d = py_round (EARTH_RADIUS_KM * (2 * atan2 (sqrt ?a) (sqrt (1 - ?a)))) 2"
    unfolding haversine_unfold by (auto split: if_splits)
  have "0 \<le> atan2 (sqrt ?a) (sqrt (1 - ?a))"
    using r by (auto simp: atan2_def)
  then have "0 \<le> EARTH_RADIUS_KM * (2 * atan2 (sqrt ?a) (sqrt (1 - ?a)))"
    by (simp add: EARTH_RADIUS_KM_def)
  then show ?thesis
    unfolding d by (rule py_round_nonneg)
qed

lemma py_round_is_grid: "\<exists>k. py_round x n = of_int k / 10 ^ n"
  unfolding py_round_def by blast


lemma haversine_antipodal: "haversine_distance 0 0 0 180 = Inr half_equator_km"
  by (simp add: haversine_distance_def math_sqrt_def Let_def radians_def atan2_def
        EARTH_RADIUS_KM_def half_equator_km_def)

lemma great_circle_antipodal: "great_circle_km 0 0 0 180 = 6371 * pi"
  by (simp add: great_circle_km_def central_angle_def radians_def)

lemma half_equator_km_bounds: "12000 \<le> half_equator_km"
proof -
  have "6371 * 2 \<le> 6371 * pi"
    using pi_ge_two by simp
  then have "12742 - 1 / (2 * 10 ^ 2) \<le> 6371 * pi - 1 / (2 * 10 ^ 2)"
    by simp
  also have "\<dots> \<le> half_equator_km"
    unfolding half_equator_km_def by (rule py_round_lower)
  finally show ?thesis
    by simp
qed

text \<open>The distance is line 43 applied to the quantity \<open>a\<close>, scaled and rounded.\<close>

lemma haversine_by_angle:
  "haversine_distance lat1 lon1 lat2 lon2 =
     (case haversine_angle_of (hav_a lat1 lon1 lat2 lon2) of
        Inl e \<Rightarrow> Inl e
      | Inr c \<Rightarrow> Inr (py_round (EARTH_RADIUS_KM * c) 2))"
  by (simp add: haversine_distance_def haversine_angle_of_def hav_a_def Let_def
        split: sum.splits)


section \<open>The route operation\<close>

lemma py_int_nonneg: "0 \<le> x \<Longrightarrow> 0 \<le> py_int x"
  by (simp add: py_int_def)

lemma co2_formula: "calculate_co2_emissions q d = py_round (q * d * (6 / 100)) 2"
  by (simp add: calculate_co2_emissions_def CO2_EMISSION_FACTOR_def)

lemma co2_nonneg: "0 \<le> q \<Longrightarrow> 0 \<le> d \<Longrightarrow> 0 \<le> calculate_co2_emissions q d"
  unfolding calculate_co2_emissions_def CO2_EMISSION_FACTOR_def
  by (intro py_round_nonneg mult_nonneg_nonneg) simp_all

lemma co2_default_positive:
  assumes "d = of_int k / 100" and "0 < d"
  shows "1 / 100 \<le> calculate_co2_emissions 10 d"
proof -
  from assms have "1 \<le> k"
    by simp
  then have "(1::real) \<le> of_int k"
    by simp
  then have "6 / 10 \<le> 10 * d * (6 / 100) * 10\<^sup>2"
    using assms(1) by simp
  then have "round_half_even (6 / 10) \<le> round_half_even (10 * d * (6 / 100) * 10\<^sup>2)"
    by (rule rhe_mono)
  moreover have "round_half_even (6 / 10) = 1"
    by (simp add: round_half_even_def Let_def)
  ultimately have "(1::real) \<le> of_int (round_half_even (10 * d * (6 / 100) * 10\<^sup>2))"
    by simp
  then show ?thesis
    by (simp add: co2_formula py_round_def divide_right_mono)
qed


text \<open>
  The operation returns an estimate whenever the destination has coordinates, the
  latitudes are in range and the quantity is absent or not negative.
\<close>

lemma route_eta_returns:
  assumes "dest_latitude (route_req_destination request) = Some lat"
    and "dest_longitude (route_req_destination request) = Some lon"
    and "- 90 \<le> latitude (route_req_origin request)" "latitude (route_req_origin request) \<le> 90"
    and "- 90 \<le> lat" "lat \<le> 90"
    and "case route_req_quantity_tons request of None \<Rightarrow> True | Some q \<Rightarrow> 0 \<le> q"
  shows "\<exists>r. calculate_route_eta st ymd rid now request = Inr r"
proof -
  obtain d where d: "haversine_distance (latitude (route_req_origin request))
      (longitude (route_req_origin request)) lat lon = Inr d"
    using haversine_is_great_circle [OF assms(3-6)] by blast
  then have d0: "0 \<le> d"
    by (rule haversine_nonneg)
  then have m: "0 \<le> py_int (d / 40 * 60)"
    by (intro py_int_nonneg) simp
  have c: "0 \<le> calculate_co2_emissions q d" if "0 \<le> q" for q
    using that d0 by (rule co2_nonneg)
  show ?thesis
    using assms(1,2,7) d d0 m c c [of 10]
    by (auto simp: calculate_route_eta_def Let_def validate_RouteETA_def not_less
             split: option.splits)
qed

lemma half_equator_km_grid: "\<exists>k. half_equator_km = of_int k / 100"
  using py_round_is_grid [of "6371 * pi" 2] by (simp add: half_equator_km_def)

lemma route_eta_antipodal:
  assumes "0 \<le> tons"
    and "q = None \<and> tons = 10 \<or> q = Some 0 \<and> tons = 10 \<or> q = Some tons \<and> tons \<noteq> 0"
  shows "calculate_route_eta default_settings example_ymd ''req-0123456789ab'' example_clock
           (antipodal_request q) = Inr (antipodal_route tons)"
proof -
  have d: "0 \<le> half_equator_km" "\<not> half_equator_km < 10" "\<not> half_equator_km < 30"
    using half_equator_km_bounds by simp_all
  have m: "0 \<le> py_int (half_equator_km / 40 * 60)"
    using d(1) by (intro py_int_nonneg) simp
  have c: "\<not> calculate_co2_emissions tons half_equator_km < 0"
    using co2_nonneg [OF assms(1) d(1)] by simp
  have q: "(case q of None \<Rightarrow> calculate_co2_emissions 10 half_equator_km
            | Some x \<Rightarrow> if x \<noteq> 0 then calculate_co2_emissions x half_equator_km
                        else calculate_co2_emissions 10 half_equator_km)
           = calculate_co2_emissions tons half_equator_km"
    using assms(2) by auto
  show ?thesis
    using d m c
    by (simp add: calculate_route_eta_def antipodal_request_def antipodal_route_def
          haversine_antipodal Let_def validate_RouteETA_def route_quality_of_def
          default_settings_def provider_of_def example_ymd_def example_clock_def last6_def q)
qed

text \<open>
  C7. The emissions are \<open>round(tons \<times> distance_km \<times> 0.06, 2)\<close>, and 10 tons are assumed
  when the request has no quantity. The comment of line 295 says the request's quantity
  is used if one is provided, and the schema \<open>RouteETARequest\<close> of src/domain/requests.py
  wants a quantity above zero; but line 297 tests the truthiness of the quantity, and
  the schema the operation reads its request with, \<open>RouteRequest\<close>, has no such bound.
  So a quantity that is provided and is zero is replaced by the 10 tons: half way round
  the equator the estimate is the one for 10 tons, and is not
  \<open>round(0 \<times> distance_km \<times> 0.06, 2) = 0\<close>.
\<close>

theorem route_eta_co2_zero_quantity_default:
  "route_req_quantity_tons (antipodal_request (Some 0)) = Some 0
   \<and> calculate_route_eta default_settings example_ymd ''req-0123456789ab'' example_clock
       (antipodal_request (Some 0)) = Inr (antipodal_route 10)
   \<and> co2_kg (antipodal_route 10)
       \<noteq> py_round (0 * route_distance_km (antipodal_route 10) * (6 / 100)) 2"
proof -
  have r: "calculate_route_eta default_settings example_ymd ''req-0123456789ab'' example_clock
     (antipodal_request (Some 0)) = Inr (antipodal_route 10)"
    by (rule route_eta_antipodal) simp_all
  obtain k where k: "half_equator_km = of_int k / 100"
    using half_equator_km_grid by blast
  have "0 < half_equator_km"
    using half_equator_km_bounds by simp
  with k have "1 / 100 \<le> calculate_co2_emissions 10 half_equator_km"
    by (rule co2_default_positive)
  then have "co2_kg (antipodal_route 10) \<noteq> 0"
    by (simp add: antipodal_route_def)
  then show ?thesis
    using r by (simp add: antipodal_request_def py_round_0)
qed





section \<open>Ranking, filtering and the split plan\<close>

lemma ext_less_simps [simp]:
  "Fin x < Fin y \<longleftrightarrow> x < y"
  "Fin x < PosInf"
  "\<not> PosInf < e"
  by (cases e; auto simp: less_ext_def)+

lemma ext_le_PosInf [simp]: "e \<le> PosInf"
  by (cases e) simp_all



















lemma example_stock [simp]:
  "get_stock sup_a = 500" "get_stock sup_b = 20" "get_stock sup_c = 0" "get_stock sup_d = 25 / 2"
  by (simp_all add: get_stock_def sup_a_def sup_b_def sup_c_def sup_d_def mk_supplier_def)





text \<open>
  C4. The eligible suppliers are exactly the suppliers of the list whose stock (0 for a
  supplier without the key) is at least the required quantity, in the order of the list:
  a sublist of the input that contains every sublist of eligible suppliers, and in which
  no supplier has a stock below the required quantity.
\<close>

theorem filter_eligible_suppliers_exact:
  "subseq (filter_eligible_suppliers xs q) xs
   \<and> set (filter_eligible_suppliers xs q) = {s \<in> set xs. q \<le> get_stock s}
   \<and> mset (filter_eligible_suppliers xs q) = filter_mset (\<lambda>s. q \<le> get_stock s) (mset xs)
   \<and> (subseq ys xs \<and> (\<forall>s \<in> set ys. q \<le> get_stock s)
         \<longrightarrow> subseq ys (filter_eligible_suppliers xs q))
   \<and> (\<forall>s \<in> set (filter_eligible_suppliers xs q). \<not> get_stock s < q)
   \<and> (\<forall>s \<in> set (filter_eligible_suppliers xs q). \<forall>v. stock_tons s = Some v \<longrightarrow> \<not> v < q)"
proof -
  let ?P = "\<lambda>s. q \<le> get_stock s"
  have f: "filter_eligible_suppliers xs q = filter ?P xs"
    by (simp add: filter_eligible_suppliers_def)
  have m: "subseq ys xs \<and> (\<forall>s \<in> set ys. ?P s) \<longrightarrow> subseq ys (filter ?P xs)"
  proof
    assume h: "subseq ys xs \<and> (\<forall>s \<in> set ys. ?P s)"
    then have "subseq (filter ?P ys) (filter ?P xs)"
      by (intro subseq_filter) simp
    moreover from h have "filter ?P ys = ys"
      by (simp add: filter_id_conv)
    ultimately show "subseq ys (filter ?P xs)"
      by simp
  qed
  have v: "\<forall>s \<in> set (filter ?P xs). \<forall>v. stock_tons s = Some v \<longrightarrow> \<not> v < q"
    by (auto simp: get_stock_def)
  show ?thesis
    unfolding f using m v by auto
qed

text \<open>For 12.5 tons the suppliers with 20, 500 and 12.5 tons are kept, in this order.\<close>

theorem filter_eligible_suppliers_exact_witness:
  "filter_eligible_suppliers [sup_b, sup_c, sup_a, sup_d] (25 / 2) = [sup_b, sup_a, sup_d]
   \<and> subseq [sup_b, sup_d] [sup_b, sup_c, sup_a, sup_d]
   \<and> 25 / 2 \<le> get_stock sup_b \<and> 25 / 2 \<le> get_stock sup_d
   \<and> subseq [sup_b, sup_d] (filter_eligible_suppliers [sup_b, sup_c, sup_a, sup_d] (25 / 2))
   \<and> \<not> get_stock sup_b < 25 / 2 \<and> \<not> get_stock sup_a < 25 / 2
   \<and> \<not> get_stock sup_d < 25 / 2
   \<and> get_stock sup_c < 25 / 2"
proof -
  have e: "filter_eligible_suppliers [sup_b, sup_c, sup_a, sup_d] (25 / 2) = [sup_b, sup_a, sup_d]"
    by (simp add: filter_eligible_suppliers_def)
  have s: "subseq [sup_b, sup_d] [sup_b, sup_c, sup_a, sup_d]"
    by (simp add: subseq_Cons2_iff)
  have p: "\<forall>s \<in> set [sup_b, sup_d]. 25 / 2 \<le> get_stock s"
    by simp
  from filter_eligible_suppliers_exact [of "[sup_b, sup_c, sup_a, sup_d]" "25 / 2" "[sup_b, sup_d]"]
    e s p
  show ?thesis
    by simp
qed

lemma rank_suppliers_sort: "rank_suppliers xs = sort_key rank_key xs"
  by (simp add: rank_suppliers_def)

lemma rank_key_missing:
  "rank_key (s\<lparr>distance_km := Some v\<rparr>) < rank_key (s\<lparr>distance_km := None\<rparr>)"
  "rank_key (s\<lparr>price_inr_per_ton := Some v\<rparr>) < rank_key (s\<lparr>price_inr_per_ton := None\<rparr>)"
  "rank_key (s\<lparr>lead_time_days := Some d\<rparr>) < rank_key (s\<lparr>lead_time_days := None\<rparr>)"
  by (simp_all add: rank_key_def get_or_inf_def less_prod_def)

lemma rank_key_distance_missing:
  assumes "distance_km s = None" and "distance_km t \<noteq> None"
  shows "rank_key t < rank_key s"
  using assms by (auto simp: rank_key_def get_or_inf_def less_prod_def)

lemma missing_distance_last:
  assumes "i < length xs" "j < length xs"
    and "distance_km (rank_suppliers xs ! i) = None"
    and "distance_km (rank_suppliers xs ! j) \<noteq> None"
  shows "j < i"
proof (rule ccontr)
  assume "\<not> j < i"
  then have "i \<le> j"
    by simp
  moreover have "sorted (map rank_key (rank_suppliers xs))"
    by (simp add: rank_suppliers_sort)
  ultimately have "map rank_key (rank_suppliers xs) ! i \<le> map rank_key (rank_suppliers xs) ! j"
    using assms(2) by (intro sorted_nth_mono) (simp_all add: rank_suppliers_sort)
  then have "rank_key (rank_suppliers xs ! i) \<le> rank_key (rank_suppliers xs ! j)"
    using assms(1,2) by (simp add: rank_suppliers_sort)
  with rank_key_distance_missing [OF assms(3,4)] show False
    by simp
qed

text \<open>
  C3. The ranking is the stable sort by the tuple (distance, price, lead time) with a
  missing value ordered as \<open>+\<infinity>\<close>: its keys are in non-decreasing order, it is a
  permutation of the input in which suppliers of equal key keep their order, a supplier
  without a distance follows every supplier with one, a list that is already in order is
  returned unchanged, and ranking twice is ranking once.
\<close>

theorem rank_suppliers_stable_sorted:
  "sorted (map rank_key (rank_suppliers xs))
   \<and> mset (rank_suppliers xs) = mset xs
   \<and> filter (\<lambda>s. rank_key s = k) (rank_suppliers xs) = filter (\<lambda>s. rank_key s = k) xs
   \<and> rank_suppliers (rank_suppliers xs) = rank_suppliers xs
   \<and> (sorted (map rank_key xs) \<longrightarrow> rank_suppliers xs = xs)
   \<and> (i < length xs \<and> j < length xs
        \<and> distance_km (rank_suppliers xs ! i) = None
        \<and> distance_km (rank_suppliers xs ! j) \<noteq> None \<longrightarrow> j < i)
   \<and> rank_key (s\<lparr>distance_km := Some v\<rparr>) < rank_key (s\<lparr>distance_km := None\<rparr>)
   \<and> rank_key (s\<lparr>price_inr_per_ton := Some v\<rparr>) < rank_key (s\<lparr>price_inr_per_ton := None\<rparr>)
   \<and> rank_key (s\<lparr>lead_time_days := Some d\<rparr>) < rank_key (s\<lparr>lead_time_days := None\<rparr>)"
proof -
  have srt: "sorted (map rank_key (rank_suppliers xs))"
    by (simp add: rank_suppliers_sort)
  have perm: "mset (rank_suppliers xs) = mset xs"
    by (simp add: rank_suppliers_sort)
  have stable: "filter (\<lambda>s. rank_key s = k) (rank_suppliers xs) = filter (\<lambda>s. rank_key s = k) xs"
    unfolding rank_suppliers_sort by (rule sort_key_stable)
  have fixd: "sorted (map rank_key xs) \<longrightarrow> rank_suppliers xs = xs"
    by (simp add: rank_suppliers_sort sort_key_id_if_sorted)
  have idem: "rank_suppliers (rank_suppliers xs) = rank_suppliers xs"
    unfolding rank_suppliers_sort by (simp add: sort_key_id_if_sorted)
  from srt perm stable idem fixd missing_distance_last [of i xs j]
    rank_key_missing(1) [of v s] rank_key_missing(2) [of v s] rank_key_missing(3) [of d s]
  show ?thesis
    by blast
qed

lemma example_keys:
  "rank_key sup_a = (PosInf, Fin 6800, Fin 2)"
  "rank_key sup_b = (Fin 5, Fin 7000, Fin 2)"
  "rank_key sup_c = (Fin 5, Fin 6900, Fin 3)"
  "rank_key sup_d = (Fin 8, Fin 7100, Fin 1)"
  by (simp_all add: rank_key_def get_or_inf_def sup_a_def sup_b_def sup_c_def sup_d_def
        mk_supplier_def)

lemma example_rank: "rank_suppliers [sup_a, sup_d, sup_b, sup_c] = [sup_c, sup_b, sup_d, sup_a]"
  by (simp add: rank_suppliers_def example_keys less_eq_prod_def)

text \<open>
  Four suppliers: the two at 5 km are ordered by price, the one at 8 km follows, the one
  without a distance is last; the ranked list is left as it is.
\<close>

theorem rank_suppliers_stable_sorted_witness:
  "rank_suppliers [sup_a, sup_d, sup_b, sup_c] = [sup_c, sup_b, sup_d, sup_a]
   \<and> sorted (map rank_key [sup_c, sup_b, sup_d, sup_a])
   \<and> rank_suppliers [sup_c, sup_b, sup_d, sup_a] = [sup_c, sup_b, sup_d, sup_a]
   \<and> distance_km (rank_suppliers [sup_a, sup_d, sup_b, sup_c] ! 3) = None
   \<and> distance_km (rank_suppliers [sup_a, sup_d, sup_b, sup_c] ! 0) \<noteq> None
   \<and> (0 :: nat) < 3"
proof -
  have s: "sorted (map rank_key [sup_c, sup_b, sup_d, sup_a])"
    by (simp add: example_keys less_eq_prod_def)
  have d: "distance_km sup_a = None" "distance_km sup_c \<noteq> None"
    by (simp_all add: sup_a_def sup_c_def mk_supplier_def)
  from rank_suppliers_stable_sorted [of "[sup_c, sup_b, sup_d, sup_a]"] s
  have f: "rank_suppliers [sup_c, sup_b, sup_d, sup_a] = [sup_c, sup_b, sup_d, sup_a]"
    by blast
  from rank_suppliers_stable_sorted [of "[sup_a, sup_d, sup_b, sup_c]" _ 3 0] example_rank s f d
  show ?thesis
    by simp
qed

section \<open>The response cache\<close>

lemma py_int_0: "py_int 0 = 0"
  by (simp add: py_int_def)




section \<open>The search operation\<close>


lemma of_char_lower_char: "of_char (lower_char c) = (if 65 \<le> (of_char c :: nat) \<and> (of_char c :: nat) \<le> 90 then of_char c + 32 else (of_char c :: nat))"
  by (cases c) (auto simp: lower_char_def Let_def)



lemma load_dom:
  assumes "dom dc \<subseteq> dom MATERIAL_FILE_MAP"
  shows "dom (snd (load_supplier_data base_dir read_file dc m)) \<subseteq> dom MATERIAL_FILE_MAP"
  using assms
  by (auto simp: load_supplier_data_def Let_def split: option.splits file_content.splits if_splits)




text \<open>The catalogues that are loaded are catalogues of known materials.\<close>

lemma search_suppliers_dom:
  assumes "dom (supplier_data_cache s) \<subseteq> dom MATERIAL_FILE_MAP"
  shows "dom (supplier_data_cache
           (snd (search_suppliers st gen rid now base_dir read_file s request)))
         \<subseteq> dom MATERIAL_FILE_MAP"
proof -
  have l: "snd (search_response st rid g base_dir read_file (supplier_data_cache s) request)
      = snd (load_supplier_data base_dir read_file (supplier_data_cache s) (material request))"
    for g
    by (simp add: search_response_def Let_def split: prod.splits sum.splits)
  obtain res dc where r: "search_response st rid (now 2) base_dir read_file
      (supplier_data_cache s) request = (res, dc)"
    by fastforce
  have "dom (snd (search_response st rid (now 2) base_dir read_file (supplier_data_cache s)
      request)) \<subseteq> dom MATERIAL_FILE_MAP"
    unfolding l using assms by (rule load_dom)
  with r have dc: "dom dc \<subseteq> dom MATERIAL_FILE_MAP"
    by simp
  obtain cached cm where g: "cache_get gen (now 0) (now 1) (cache_manager s)
      (search_key_params request) = (cached, cm)"
    by fastforce
  show ?thesis
    unfolding search_suppliers_def Let_def g r using assms dc
    by (simp split: option.splits sum.splits)
qed



text \<open>The search on a catalogue of one supplier.\<close>

lemma lower_cement: "lower ''cement'' = ''cement''"
  by (simp add: lower_def lower_char_def Let_def)

lemma cement_file: "MATERIAL_FILE_MAP ''cement'' = Some ''cement_suppliers_mock.json''"
  by (simp add: MATERIAL_FILE_MAP_def)

lemma depot_distance:
  obtains d where "haversine_distance 17 78 17 79 = Inr d" and "0 \<le> d"
proof -
  have "haversine_distance 17 78 17 79
      = Inr (py_round (great_circle_km 17 78 17 79) 2)"
    by (rule haversine_is_great_circle) simp_all
  then show ?thesis
    using haversine_nonneg that by blast
qed

lemma search_response_cement:
  assumes "haversine_distance 17 78 17 79 = Inr d" and "0 \<le> d"
  shows "search_response default_settings rid 1762597800000000 ''/app'' cement_fs Map.empty
           cement_request
         = (Inr (cement_bundle d rid False None), [''cement'' \<mapsto> Some [depot]])"
proof -
  have l: "load_supplier_data ''/app'' cement_fs Map.empty ''cement''
      = (Inr (Some [depot]), [''cement'' \<mapsto> Some [depot]])"
    by (simp add: load_supplier_data_def lower_cement cement_file cement_fs_def Let_def)
  have e: "enrich_suppliers 17 78 [depot] = Inr [depot\<lparr>distance_km := Some d\<rparr>]"
    using assms(1) by (simp add: depot_def)
  have v: "validate_Supplier (depot\<lparr>distance_km := Some d\<rparr>) = Inr (depot\<lparr>distance_km := Some d\<rparr>)"
    using assms(2) by (simp add: validate_Supplier_def supplier_valid_def depot_def)
  have r: "rank_suppliers [depot\<lparr>distance_km := Some d\<rparr>] = [depot\<lparr>distance_km := Some d\<rparr>]"
    by (simp add: rank_suppliers_def)
  have f: "filter_eligible_suppliers [depot\<lparr>distance_km := Some d\<rparr>] 50
      = [depot\<lparr>distance_km := Some d\<rparr>]"
    by (simp add: filter_eligible_suppliers_def get_stock_def depot_def)
  have c: "recommend [depot\<lparr>distance_km := Some d\<rparr>] 50 = Inr (Some (depot\<lparr>distance_km := Some d\<rparr>))"
    by (simp add: recommend_def f v)
  have a: "validate_all [depot\<lparr>distance_km := Some d\<rparr>] = Inr [depot\<lparr>distance_km := Some d\<rparr>]"
    by (simp add: v)
  show ?thesis
    by (simp add: search_response_def cement_request_def l e r c a validate_SupplierBundle_def
          cement_bundle_def default_settings_def provider_of_def Let_def
          del: enrich_suppliers.simps validate_all.simps)
qed

text \<open>
  The first search for cement computes the bundle and stores it; the same search again is
  served from the cache, marked as a hit of age 0 and stamped with the new request id.
\<close>

lemma search_suppliers_cement_twice:
  assumes "haversine_distance 17 78 17 79 = Inr d" and "0 \<le> d"
  shows "fst (search_suppliers default_settings example_search_key ''req-1'' example_clock
                ''/app'' cement_fs initial_state cement_request)
           = Inr (cement_bundle d ''req-1'' False None)"
    and "fst (search_suppliers default_settings example_search_key ''req-2'' example_clock
                ''/app'' cement_fs
                (snd (search_suppliers default_settings example_search_key ''req-1''
                        example_clock ''/app'' cement_fs initial_state cement_request))
                cement_request)
           = Inr (cement_bundle d ''req-2'' True (Some 0))"
proof -
  let ?k = "example_search_key (search_key_params cement_request)"
  let ?e = "\<lparr>entry_data = cement_bundle d ''req-1'' False None,
             cached_at = 1762597800000000,
             expiry = 1762597800000000 + timedelta_hours 24\<rparr>"
  let ?s1 = "\<lparr>cache_manager = \<lparr>cache_store = [?k \<mapsto> ?e], default_ttl = timedelta_hours 24\<rparr>,
              supplier_data_cache = [''cement'' \<mapsto> Some [depot]]\<rparr>"
  have g0: "cache_get example_search_key (example_clock 0) (example_clock 1)
      (cache_manager initial_state) (search_key_params cement_request)
      = (None, cache_manager initial_state)"
    by (simp add: cache_get_def initial_state_def new_CacheManager_def Let_def)
  have first: "search_suppliers default_settings example_search_key ''req-1'' example_clock
      ''/app'' cement_fs initial_state cement_request
      = (Inr (cement_bundle d ''req-1'' False None), ?s1)"
    unfolding search_suppliers_def Let_def g0
    using search_response_cement [OF assms, of "''req-1''"]
    by (simp add: initial_state_def example_clock_def cache_set_def new_CacheManager_def
          default_settings_def Let_def)
  then show "fst (search_suppliers default_settings example_search_key ''req-1'' example_clock
                ''/app'' cement_fs initial_state cement_request)
           = Inr (cement_bundle d ''req-1'' False None)"
    by simp
  have g1: "cache_get example_search_key (example_clock 0) (example_clock 1)
      (cache_manager ?s1) (search_key_params cement_request)
      = (Some \<lparr>hit_data = cement_bundle d ''req-1'' False None,
                hit_cached_at = 1762597800000000, age_seconds = 0, cache_hit = True\<rparr>,
         cache_manager ?s1)"
    by (simp add: cache_get_def Let_def example_clock_def timedelta_hours_def
          total_seconds_int_def py_int_0)
  show "fst (search_suppliers default_settings example_search_key ''req-2'' example_clock
                ''/app'' cement_fs
                (snd (search_suppliers default_settings example_search_key ''req-1''
                        example_clock ''/app'' cement_fs initial_state cement_request))
                cement_request)
           = Inr (cement_bundle d ''req-2'' True (Some 0))"
    unfolding first snd_conv
    unfolding search_suppliers_def Let_def g1
    by (simp add: default_settings_def cement_bundle_def)
qed

end
